theory Spec2Isabelle
  imports Main
begin

section \<open>Go library functions the program relies on\<close>

text \<open>
  Go strings are byte sequences and \<open>len\<close> counts bytes; they are modelled as
  \<^typ>\<open>string\<close>, the lists of 8-bit characters. The program splits and joins on the
  one-byte separator \<open>"\n"\<close> and joins label pairs with \<open>","\<close>.
\<close>

abbreviation NL :: char where
  "NL \<equiv> CHR 0x0A"

text \<open>
  \<open>strings.Split(s, sep)\<close> for a one-byte separator: the segments between the
  occurrences of the separator, in order; a text without separator (the empty text too)
  is one segment. \<open>cur\<close> collects the bytes of the segment being scanned.
\<close>

fun split_from :: "string \<Rightarrow> char \<Rightarrow> string \<Rightarrow> string list" where
  "split_from [] sep cur = [cur]"
| "split_from (c # cs) sep cur =
     (if c = sep then cur # split_from cs sep [] else split_from cs sep (cur @ [c]))"

definition Split :: "string \<Rightarrow> char \<Rightarrow> string list" where
  "Split s sep = split_from s sep []"

text \<open>\<open>strings.Join(elems, sep)\<close>: no element gives the empty text, one element itself.\<close>

fun Join :: "string list \<Rightarrow> string \<Rightarrow> string" where
  "Join [] sep = []"
| "Join [x] sep = x"
| "Join (x # y # ys) sep = x @ sep @ Join (y # ys) sep"

text \<open>\<open>fmt.Sprintf("%d", n)\<close>: the decimal digits, with a minus sign below zero.\<close>

fun nat_decimal :: "nat \<Rightarrow> string" where
  "nat_decimal n =
     (if n < 10 then [''0123456789'' ! n]
      else nat_decimal (n div 10) @ [''0123456789'' ! (n mod 10)])"

definition Sprintf_d :: "int \<Rightarrow> string" where
  "Sprintf_d i = (if i < 0 then CHR ''-'' # nat_decimal (nat (- i)) else nat_decimal (nat i))"

text \<open>
  Go \<open>error\<close> values. \<open>exec2.CodeExitError\<close> carries the text of its inner error and
  the exit code of the remote process; any other error is plain or wraps another error.
  A nil error is \<open>None\<close> of \<^typ>\<open>'a option\<close>.
\<close>

datatype go_error =
    CodeExitError string int
  | PlainError string
  | WrapError string go_error

fun err_Error :: "go_error \<Rightarrow> string" where
  "err_Error (CodeExitError m c) = m"
| "err_Error (PlainError m) = m"
| "err_Error (WrapError m e) = m"

text \<open>
  \<open>errors.As(err, &e)\<close> with \<open>e\<close> of type \<open>exec2.CodeExitError\<close>: the first
  code-exit error of the chain, none for nil.
\<close>

fun unwrap_CodeExitError :: "go_error \<Rightarrow> (string \<times> int) option" where
  "unwrap_CodeExitError (CodeExitError m c) = Some (m, c)"
| "unwrap_CodeExitError (PlainError m) = None"
| "unwrap_CodeExitError (WrapError m e) = unwrap_CodeExitError e"

definition errors_As :: "go_error option \<Rightarrow> (string \<times> int) option" where
  "errors_As err = (case err of None \<Rightarrow> None | Some e \<Rightarrow> unwrap_CodeExitError e)"

section \<open>Package k8sexec\<close>

subsection \<open>Data\<close>

record ExecutionStatus =
  Pod :: string
  Container :: string
  RetCode :: int
  Error :: "string list"
  Stdout :: "string list"
  Stderr :: "string list"

subsection \<open>Exit codes\<close>

definition ExitCodes_literal :: "(int \<times> string) list" where
  "ExitCodes_literal =
    [(- 1, ''Internal app error''),
     (0, ''Success''),
     (1, ''General error, unspecified error''),
     (2, ''Misuse of shell builtins''),
     (126, ''Command cannot execute''),
     (127, ''Command not found''),
     (128, ''Invalid argument to exit''),
     (130, ''Script terminated by Control-C (SIGINT)''),
     (255, ''Exit status out of range''),
     (129, ''Fatal error signal 1 (SIGHUP)''),
     (131, ''Fatal error signal 3 (SIGQUIT)''),
     (132, ''Fatal error signal 4 (SIGILL)''),
     (133, ''Fatal error signal 5 (SIGTRAP)''),
     (134, ''Fatal error signal 6 (SIGABRT/SIGIOT)''),
     (135, ''Fatal error signal 7 (SIGBUS)''),
     (136, ''Fatal error signal 8 (SIGFPE)''),
     (137, ''Fatal error signal 9 (SIGKILL)''),
     (138, ''Fatal error signal 10 (SIGUSR1)''),
     (139, ''Fatal error signal 11 (SIGSEGV)''),
     (140, ''Fatal error signal 12 (SIGUSR2)''),
     (141, ''Fatal error signal 13 (SIGPIPE)''),
     (142, ''Fatal error signal 14 (SIGALRM)''),
     (143, ''Fatal error signal 15 (SIGTERM)'')]"

definition ExitCodes :: "int \<rightharpoonup> string" where
  "ExitCodes = map_of ExitCodes_literal"

definition GetExitCode :: "go_error option \<Rightarrow> int \<times> string" where
  "GetExitCode err =
     (case errors_As err of
        None \<Rightarrow> (- 1, [])
      | Some (m, Code) \<Rightarrow>
          (case ExitCodes Code of
             None \<Rightarrow> (Code, ''Exit code '' @ Sprintf_d Code @ '' description not found!'')
           | Some d \<Rightarrow> (Code, d)))"

definition GetExitCodeDescription :: "int \<Rightarrow> string" where
  "GetExitCodeDescription code =
     (case ExitCodes code of None \<Rightarrow> [] | Some d \<Rightarrow> d)"

subsection \<open>Execution statuses\<close>

definition NewExecutionStatus ::
  "string \<Rightarrow> string \<Rightarrow> int \<Rightarrow> string \<Rightarrow> string \<Rightarrow> string \<Rightarrow> ExecutionStatus" where
  "NewExecutionStatus podName containerName retCode error stdout stderr =
     \<lparr>Pod = podName, Container = containerName, RetCode = retCode,
      Error = Split error NL, Stdout = Split stdout NL, Stderr = Split stderr NL\<rparr>"

subsection \<open>The cluster as the client library shows it\<close>

text \<open>
  Of a pod the program reads the name, the phase and the names of the containers of its
  spec, in declared order. Of a deployment and of a stateful set it reads the match
  labels of the selector; a Go map is ranged over in no fixed order, so the labels are
  the pairs in the order of that iteration.
\<close>

record coreV1_Pod =
  Name :: string
  Phase :: string
  Containers :: "string list"

record Deployment =
  Deployment_MatchLabels :: "(string \<times> string) list"

record StatefulSet =
  StatefulSet_MatchLabels :: "(string \<times> string) list"

text \<open>
  One remote execution, as the client library reports it: building the executor fails,
  or the stream ran and ended with an error or without one, having written some bytes to
  the two output sinks.
\<close>

datatype exec_response =
    ExecutorError go_error
  | Streamed "go_error option" string string

text \<open>
  The API handle answers for a namespace: the deployments, the stateful sets, the pods
  matching a label selector, one pod by name, and an execution request for a pod, a
  container, a command and an input (\<open>None\<close> for a nil reader). The answers are those
  of one snapshot of the cluster.
\<close>

record kubernetes_Clientset =
  Deployments_List :: "string \<Rightarrow> go_error + Deployment list"
  StatefulSets_List :: "string \<Rightarrow> go_error + StatefulSet list"
  Pods_List :: "string \<Rightarrow> string \<Rightarrow> go_error + coreV1_Pod list"
  Pods_Get :: "string \<Rightarrow> string \<Rightarrow> go_error + coreV1_Pod"
  Pods_Exec :: "string \<Rightarrow> string \<Rightarrow> string \<Rightarrow> string list \<Rightarrow> string option \<Rightarrow> exec_response"

type_synonym rest_Config = string

record K8SExec =
  Config :: rest_Config
  Clientset :: kubernetes_Clientset
  Namespace :: string

text \<open>
  What lies outside the process: the kubeconfig loader, the client constructor (neither
  sends a request to the cluster) and the standard input.
\<close>

datatype stdin_state =
    StatFails
  | CharDevice
  | Piped string
  | CopyFails go_error

record World =
  BuildConfigFromFlags :: "string \<Rightarrow> go_error + rest_Config"
  NewForConfig :: "rest_Config \<Rightarrow> go_error + kubernetes_Clientset"
  os_Stdin :: stdin_state

definition NewK8SExec :: "World \<Rightarrow> string \<Rightarrow> string \<Rightarrow> go_error + K8SExec" where
  "NewK8SExec w kubeconfigPath ns =
     (case BuildConfigFromFlags w kubeconfigPath of
        Inl err \<Rightarrow> Inl err
      | Inr cfg \<Rightarrow>
          (case NewForConfig w cfg of
             Inl err \<Rightarrow> Inl err
           | Inr cs \<Rightarrow> Inr \<lparr>Config = cfg, Clientset = cs, Namespace = ns\<rparr>))"

definition GetPod :: "K8SExec \<Rightarrow> string \<Rightarrow> go_error + coreV1_Pod" where
  "GetPod k8s podName = Pods_Get (Clientset k8s) (Namespace k8s) podName"

definition GetPods :: "K8SExec \<Rightarrow> string \<Rightarrow> go_error + coreV1_Pod list" where
  "GetPods k8s labelSelector = Pods_List (Clientset k8s) (Namespace k8s) labelSelector"

definition GetDeployments :: "K8SExec \<Rightarrow> go_error + Deployment list" where
  "GetDeployments k8s = Deployments_List (Clientset k8s) (Namespace k8s)"

definition GetStatefulSets :: "K8SExec \<Rightarrow> go_error + StatefulSet list" where
  "GetStatefulSets k8s = StatefulSets_List (Clientset k8s) (Namespace k8s)"

definition mapToLabelSelector :: "(string \<times> string) list \<Rightarrow> string" where
  "mapToLabelSelector labels = Join (map (\<lambda>(key, v). key @ ''='' @ v) labels) '',''"

subsection \<open>The unique pods of a namespace\<close>

text \<open>The inner loop \<open>for _, pod := range pods { m[pod.Name]++ }\<close>.\<close>

fun count_pods :: "coreV1_Pod list \<Rightarrow> (string \<rightharpoonup> int) \<Rightarrow> (string \<rightharpoonup> int)" where
  "count_pods [] m = m"
| "count_pods (p # ps) m =
     count_pods ps (m(Name p \<mapsto> (case m (Name p) of None \<Rightarrow> 0 | Some n \<Rightarrow> n) + 1))"

text \<open>
  The loop over the deployments and the loop over the stateful sets have the same body;
  it is written once, over the match labels of the items. A listing error skips the
  item; a listing with a pod appends its first pod, unconditionally, and every listed
  pod is counted in the map.
\<close>

fun selector_loop ::
  "K8SExec \<Rightarrow> (string \<times> string) list list \<Rightarrow> coreV1_Pod list \<Rightarrow> (string \<rightharpoonup> int)
     \<Rightarrow> coreV1_Pod list \<times> (string \<rightharpoonup> int)" where
  "selector_loop k8s [] uniquePods m = (uniquePods, m)"
| "selector_loop k8s (labels # rest) uniquePods m =
     (case GetPods k8s (mapToLabelSelector labels) of
        Inl err \<Rightarrow> selector_loop k8s rest uniquePods m
      | Inr pods \<Rightarrow>
          selector_loop k8s rest
            (if length pods > 0 then uniquePods @ [pods ! 0] else uniquePods)
            (count_pods pods m))"

fun standalone_loop ::
  "coreV1_Pod list \<Rightarrow> (string \<rightharpoonup> int) \<Rightarrow> (string \<rightharpoonup> int) \<Rightarrow> coreV1_Pod list
     \<Rightarrow> coreV1_Pod list" where
  "standalone_loop [] deploymentPods statefulSetsPods uniquePods = uniquePods"
| "standalone_loop (p # ps) deploymentPods statefulSetsPods uniquePods =
     (if deploymentPods (Name p) \<noteq> None
        then standalone_loop ps deploymentPods statefulSetsPods uniquePods
      else if statefulSetsPods (Name p) \<noteq> None
        then standalone_loop ps deploymentPods statefulSetsPods uniquePods
      else standalone_loop ps deploymentPods statefulSetsPods (uniquePods @ [p]))"

definition GetUniquePods :: "K8SExec \<Rightarrow> go_error + (int \<times> coreV1_Pod list)" where
  "GetUniquePods k8s =
     (case GetDeployments k8s of
        Inl err \<Rightarrow> Inl err
      | Inr deployments \<Rightarrow>
          (case selector_loop k8s (map Deployment_MatchLabels deployments) [] Map.empty of
             (uniquePods, deploymentPods) \<Rightarrow>
               (case GetStatefulSets k8s of
                  Inl err \<Rightarrow> Inl err
                | Inr statefulSets \<Rightarrow>
                    (case selector_loop k8s (map StatefulSet_MatchLabels statefulSets)
                            uniquePods Map.empty of
                       (uniquePods2, statefulSetsPods) \<Rightarrow>
                         (case Pods_List (Clientset k8s) (Namespace k8s) [] of
                            Inl err \<Rightarrow> Inl err
                          | Inr podsItems \<Rightarrow>
                              Inr (int (length podsItems),
                                   standalone_loop podsItems deploymentPods statefulSetsPods
                                     uniquePods2))))))"

subsection \<open>Remote execution\<close>

text \<open>
  \<open>exec\<close> returns the code and the error; the bytes it left in the two sinks it was
  given are returned with them.
\<close>

definition exec ::
  "K8SExec \<Rightarrow> string \<Rightarrow> string \<Rightarrow> string list \<Rightarrow> string option
     \<Rightarrow> int \<times> go_error option \<times> string \<times> string" where
  "exec k8s podName containerName cmd stdin =
     (case Pods_Exec (Clientset k8s) (Namespace k8s) podName containerName cmd stdin of
        ExecutorError err \<Rightarrow> (- 1, Some err, [], [])
      | Streamed None out errOut \<Rightarrow> (0, None, out, errOut)
      | Streamed (Some err) out errOut \<Rightarrow>
          (case errors_As (Some err) of
             Some (m, Code) \<Rightarrow> (Code, Some (CodeExitError m Code), out, errOut)
           | None \<Rightarrow> (- 1, Some err, out, errOut)))"

definition CheckUtilInContainer :: "K8SExec \<Rightarrow> string \<Rightarrow> string \<Rightarrow> string \<Rightarrow> bool" where
  "CheckUtilInContainer k8s podName containerName util =
     (case exec k8s podName containerName [util] None of
        (retCode, err, out, errOut) \<Rightarrow> retCode \<noteq> 127 \<and> retCode \<noteq> 126)"

definition Exec ::
  "K8SExec \<Rightarrow> string \<Rightarrow> string \<Rightarrow> string list \<Rightarrow> string option \<Rightarrow> ExecutionStatus" where
  "Exec k8s podName containerName args stdin =
     (case exec k8s podName containerName args stdin of
        (retCode, err, out, errOut) \<Rightarrow>
          NewExecutionStatus podName containerName retCode
            (case err of None \<Rightarrow> [] | Some e \<Rightarrow> err_Error e) out errOut)"

section \<open>Package cmd\<close>

record Flags =
  kubeconfig :: string
  namespace :: string
  pod :: string
  container :: string
  format :: string

text \<open>The field \<open>Namespace\<close> of the aggregate is \<open>EnumNamespace\<close> here.\<close>

record EnumerationStatus =
  Stdin :: string
  Args :: "string list"
  EnumNamespace :: string
  Statuses :: "ExecutionStatus list"

definition NewEnumerationStatus :: "string \<Rightarrow> string list \<Rightarrow> string \<Rightarrow> EnumerationStatus" where
  "NewEnumerationStatus pipeCommand command ns =
     \<lparr>Stdin = (if length pipeCommand > 40 then take 40 pipeCommand @ ''... too long''
               else pipeCommand),
      Args = command, EnumNamespace = ns, Statuses = []\<rparr>"

text \<open>
  \<open>run\<close> ends by \<open>os.Exit(1)\<close> after printing a text, by returning an error, or by
  returning nil after handing the aggregate to the renderer. Beside the outcome the model
  returns the requests made to the cluster, in order.
\<close>

datatype run_outcome =
    os_Exit string
  | return_err go_error
  | return_nil EnumerationStatus

datatype api_call =
    PodsGet string string
  | PodsList string string
  | ExecRequest string string string "string list" "string option"

definition k8sInit :: "World \<Rightarrow> string \<Rightarrow> string + (rest_Config \<times> kubernetes_Clientset)" where
  "k8sInit w kubeconfigPath =
     (case BuildConfigFromFlags w kubeconfigPath of
        Inl err \<Rightarrow> Inl (err_Error err @ [NL])
      | Inr cfg \<Rightarrow>
          (case NewForConfig w cfg of
             Inl err \<Rightarrow> Inl (err_Error err @ [NL])
           | Inr cs \<Rightarrow> Inr (cfg, cs)))"

definition capture_stdin :: "stdin_state \<Rightarrow> string + string" where
  "capture_stdin st =
     (case st of
        StatFails \<Rightarrow> Inr []
      | CharDevice \<Rightarrow> Inr []
      | Piped s \<Rightarrow> Inr s
      | CopyFails err \<Rightarrow> Inl (''Failed to read stdin: '' @ err_Error err @ [NL]))"

text \<open>
  The loop over the containers of a pod: each execution reads a fresh buffer over the
  captured input, and its status is appended.
\<close>

fun container_loop ::
  "K8SExec \<Rightarrow> string \<Rightarrow> string list \<Rightarrow> string list \<Rightarrow> string
     \<Rightarrow> EnumerationStatus \<times> api_call list \<Rightarrow> EnumerationStatus \<times> api_call list" where
  "container_loop k8s podName [] args stdinBuf st = st"
| "container_loop k8s podName (c # cs) args stdinBuf st =
     container_loop k8s podName cs args stdinBuf
       ((fst st)\<lparr>Statuses := Statuses (fst st) @ [Exec k8s podName c args (Some stdinBuf)]\<rparr>,
        snd st @ [ExecRequest (Namespace k8s) podName c args (Some stdinBuf)])"

fun pod_loop ::
  "K8SExec \<Rightarrow> coreV1_Pod list \<Rightarrow> string list \<Rightarrow> string
     \<Rightarrow> EnumerationStatus \<times> api_call list \<Rightarrow> EnumerationStatus \<times> api_call list" where
  "pod_loop k8s [] args stdinBuf st = st"
| "pod_loop k8s (p # ps) args stdinBuf st =
     pod_loop k8s ps args stdinBuf
       (if Phase p = ''Running''
        then container_loop k8s (Name p) (Containers p) args stdinBuf st
        else st)"

text \<open>The \<open>switch\<close> of \<open>run\<close> over the two flags; no case matches a container without a pod.\<close>

definition run_switch ::
  "kubernetes_Clientset \<Rightarrow> K8SExec \<Rightarrow> Flags \<Rightarrow> string list \<Rightarrow> string \<Rightarrow> EnumerationStatus
     \<Rightarrow> run_outcome \<times> api_call list" where
  "run_switch clientset k8s fl args stdinBuf enumStatus =
     (if pod fl \<noteq> [] \<and> container fl = [] then
        (case Pods_Get clientset (namespace fl) (pod fl) of
           Inl err \<Rightarrow> (os_Exit (err_Error err @ [NL]), [PodsGet (namespace fl) (pod fl)])
         | Inr thePod \<Rightarrow>
             (if Phase thePod = ''Running'' then
                (case container_loop k8s (Name thePod) (Containers thePod) args stdinBuf
                        (enumStatus, [PodsGet (namespace fl) (pod fl)]) of
                   (es, calls) \<Rightarrow> (return_nil es, calls))
              else (return_nil enumStatus, [PodsGet (namespace fl) (pod fl)])))
      else if pod fl \<noteq> [] \<and> container fl \<noteq> [] then
        (case Pods_Get clientset (namespace fl) (pod fl) of
           Inl err \<Rightarrow> (os_Exit (err_Error err @ [NL]), [PodsGet (namespace fl) (pod fl)])
         | Inr thePod \<Rightarrow>
             (if Phase thePod \<noteq> ''Running'' then
                (os_Exit (''Pod '' @ pod fl @ '' is not in Running phase'' @ [NL]),
                 [PodsGet (namespace fl) (pod fl)])
              else
                (return_nil
                   (enumStatus\<lparr>Statuses := Statuses enumStatus @
                      [Exec k8s (pod fl) (container fl) args (Some stdinBuf)]\<rparr>),
                 [PodsGet (namespace fl) (pod fl),
                  ExecRequest (Namespace k8s) (pod fl) (container fl) args (Some stdinBuf)])))
      else if pod fl = [] \<and> container fl = [] then
        (case GetPods k8s [] of
           Inl err \<Rightarrow> (os_Exit (err_Error err @ [NL]), [PodsList (Namespace k8s) []])
         | Inr pods \<Rightarrow>
             (case pod_loop k8s pods args stdinBuf
                     (enumStatus, [PodsList (Namespace k8s) []]) of
                (es, calls) \<Rightarrow> (return_nil es, calls)))
      else (return_nil enumStatus, []))"

definition run :: "World \<Rightarrow> Flags \<Rightarrow> string list \<Rightarrow> run_outcome \<times> api_call list" where
  "run w fl args =
     (case k8sInit w (kubeconfig fl) of
        Inl msg \<Rightarrow> (os_Exit msg, [])
      | Inr (cfg, clientset) \<Rightarrow>
          (case NewK8SExec w (kubeconfig fl) (namespace fl) of
             Inl err \<Rightarrow> (return_err err, [])
           | Inr k8s \<Rightarrow>
               (case capture_stdin (os_Stdin w) of
                  Inl msg \<Rightarrow> (os_Exit msg, [])
                | Inr stdinBuf \<Rightarrow>
                    (if length stdinBuf = 0 \<and> length args = 0 then
                       (return_err
                          (PlainError ''No commands provided either by stdin or arguments.''),
                        [])
                     else
                       (let args2 = (if length stdinBuf > 0 \<and> length args = 0
                                     then [''sh''] else args)
                        in run_switch clientset k8s fl args2 stdinBuf
                             (NewEnumerationStatus stdinBuf args2 (namespace fl)))))))"

section \<open>The earlier single-file program (main.go)\<close>

text \<open>
  main.go holds its own copy of the exit-code table and of the classifier. Its table has
  the signal form at 130, and its classifier gives \<open>(-1, "")\<close> for a code that the table
  lacks.
\<close>

definition main_ExitCodes_literal :: "(int \<times> string) list" where
  "main_ExitCodes_literal =
    [(- 1, ''Internal app error''),
     (0, ''Success''),
     (1, ''General error, unspecified error''),
     (2, ''Misuse of shell builtins''),
     (126, ''Command cannot execute''),
     (127, ''Command not found''),
     (128, ''Invalid argument to exit''),
     (255, ''Exit status out of range''),
     (129, ''Fatal error signal 1 (SIGHUP)''),
     (130, ''Fatal error signal 2 (SIGINT)''),
     (131, ''Fatal error signal 3 (SIGQUIT)''),
     (132, ''Fatal error signal 4 (SIGILL)''),
     (133, ''Fatal error signal 5 (SIGTRAP)''),
     (134, ''Fatal error signal 6 (SIGABRT/SIGIOT)''),
     (135, ''Fatal error signal 7 (SIGBUS)''),
     (136, ''Fatal error signal 8 (SIGFPE)''),
     (137, ''Fatal error signal 9 (SIGKILL)''),
     (138, ''Fatal error signal 10 (SIGUSR1)''),
     (139, ''Fatal error signal 11 (SIGSEGV)''),
     (140, ''Fatal error signal 12 (SIGUSR2)''),
     (141, ''Fatal error signal 13 (SIGPIPE)''),
     (142, ''Fatal error signal 14 (SIGALRM)''),
     (143, ''Fatal error signal 15 (SIGTERM)'')]"

definition main_ExitCodes :: "int \<rightharpoonup> string" where
  "main_ExitCodes = map_of main_ExitCodes_literal"

definition getExitCode :: "go_error option \<Rightarrow> int \<times> string" where
  "getExitCode err =
     (case errors_As err of
        None \<Rightarrow> (- 1, [])
      | Some (m, Code) \<Rightarrow>
          (case main_ExitCodes Code of
             None \<Rightarrow> (- 1, [])
           | Some d \<Rightarrow> (Code, d)))"

definition getExitCodeDescription :: "int \<Rightarrow> string" where
  "getExitCodeDescription code =
     (case main_ExitCodes code of None \<Rightarrow> [] | Some d \<Rightarrow> d)"

text \<open>
  main.go builds the aggregate with a guard on a non-empty text, and slices the first
  40 bytes under it: slicing a shorter text panics.
\<close>

datatype runtime_panic = slice_bounds_out_of_range

definition main_NewEnumerationStatus ::
  "string \<Rightarrow> string list \<Rightarrow> string \<Rightarrow> runtime_panic + EnumerationStatus" where
  "main_NewEnumerationStatus pipeCommand command ns =
     (if length pipeCommand > 0 then
        (if length pipeCommand < 40 then Inl slice_bounds_out_of_range
         else Inr \<lparr>Stdin = take 40 pipeCommand @ ''... too long'',
                   Args = command, EnumNamespace = ns, Statuses = []\<rparr>)
      else Inr \<lparr>Stdin = pipeCommand, Args = command, EnumNamespace = ns, Statuses = []\<rparr>)"

section \<open>Notions used to state the properties\<close>

text \<open>
  The first listed pod of every selector whose listing succeeds with a pod, in the order
  of the selectors, and the names of all the pods of the successful listings.
\<close>

fun first_matches :: "K8SExec \<Rightarrow> (string \<times> string) list list \<Rightarrow> coreV1_Pod list" where
  "first_matches k8s [] = []"
| "first_matches k8s (labels # rest) =
     (case GetPods k8s (mapToLabelSelector labels) of
        Inl err \<Rightarrow> first_matches k8s rest
      | Inr [] \<Rightarrow> first_matches k8s rest
      | Inr (p # ps) \<Rightarrow> p # first_matches k8s rest)"

fun matched_names :: "K8SExec \<Rightarrow> (string \<times> string) list list \<Rightarrow> string set" where
  "matched_names k8s [] = {}"
| "matched_names k8s (labels # rest) =
     (case GetPods k8s (mapToLabelSelector labels) of
        Inl err \<Rightarrow> matched_names k8s rest
      | Inr pods \<Rightarrow> set (map Name pods) \<union> matched_names k8s rest)"

text \<open>The executions over the containers of the pods that are in phase Running.\<close>

definition running_targets :: "coreV1_Pod list \<Rightarrow> (string \<times> string) list" where
  "running_targets pods =
     concat (map (\<lambda>p. if Phase p = ''Running'' then map (Pair (Name p)) (Containers p) else [])
                 pods)"

fun fatal :: "run_outcome \<Rightarrow> bool" where
  "fatal (os_Exit msg) = True"
| "fatal (return_err err) = True"
| "fatal (return_nil es) = False"

fun outcome_statuses :: "run_outcome \<Rightarrow> ExecutionStatus list" where
  "outcome_statuses (os_Exit msg) = []"
| "outcome_statuses (return_err err) = []"
| "outcome_statuses (return_nil es) = Statuses es"

text \<open>
  The first listed pods of the deployments followed by those of the stateful sets, and
  the names that the listings of either kind contain.
\<close>

definition controller_firsts ::
  "K8SExec \<Rightarrow> Deployment list \<Rightarrow> StatefulSet list \<Rightarrow> coreV1_Pod list" where
  "controller_firsts k8s deployments statefulSets =
     first_matches k8s (map Deployment_MatchLabels deployments) @
     first_matches k8s (map StatefulSet_MatchLabels statefulSets)"

definition claimed_names ::
  "K8SExec \<Rightarrow> Deployment list \<Rightarrow> StatefulSet list \<Rightarrow> string set" where
  "claimed_names k8s deployments statefulSets =
     matched_names k8s (map Deployment_MatchLabels deployments) \<union>
     matched_names k8s (map StatefulSet_MatchLabels statefulSets)"

definition status_target :: "ExecutionStatus \<Rightarrow> string \<times> string" where
  "status_target st = (Pod st, Container st)"

section \<open>A concrete namespace\<close>

text \<open>
  One deployment with the replicas web-1 and web-2, one stateful set with the pending pod
  db-0, and the pod job-1 that no controller owns. The listing answers two more
  selectors: \<open>tier=front\<close> lists web-1 alone, \<open>tier=back\<close> lists web-2 before web-1.
\<close>

definition web1 :: coreV1_Pod where
  "web1 = \<lparr>Name = ''web-1'', Phase = ''Running'', Containers = [''app'', ''sidecar'']\<rparr>"

definition web2 :: coreV1_Pod where
  "web2 = \<lparr>Name = ''web-2'', Phase = ''Running'', Containers = [''app'']\<rparr>"

definition db0 :: coreV1_Pod where
  "db0 = \<lparr>Name = ''db-0'', Phase = ''Pending'', Containers = [''postgres'']\<rparr>"

definition job1 :: coreV1_Pod where
  "job1 = \<lparr>Name = ''job-1'', Phase = ''Running'', Containers = [''main'']\<rparr>"

definition demo_clientset :: kubernetes_Clientset where
  "demo_clientset =
     \<lparr>Deployments_List = (\<lambda>ns. Inr [\<lparr>Deployment_MatchLabels = [(''app'', ''web'')]\<rparr>]),
      StatefulSets_List = (\<lambda>ns. Inr [\<lparr>StatefulSet_MatchLabels = [(''app'', ''db'')]\<rparr>]),
      Pods_List = (\<lambda>ns selector.
         if selector = ''app=web'' then Inr [web1, web2]
         else if selector = ''tier=front'' then Inr [web1]
         else if selector = ''tier=back'' then Inr [web2, web1]
         else if selector = ''app=db'' then Inr [db0]
         else if selector = [] then Inr [web1, web2, db0, job1]
         else Inr []),
      Pods_Get = (\<lambda>ns n.
         if n = ''web-1'' then Inr web1
         else if n = ''db-0'' then Inr db0
         else Inl (PlainError ''pods not found'')),
      Pods_Exec = (\<lambda>ns p c cmd stdin.
         if c = ''sidecar''
           then Streamed (Some (WrapError ''stream ended''
                  (CodeExitError ''command terminated with exit code 127'' 127)))
                  [] ''sh: not found''
         else if p = ''web-2'' then ExecutorError (PlainError ''unable to upgrade connection'')
         else if p = ''job-1'' then Streamed (Some (PlainError ''connection reset'')) ''partial'' []
         else Streamed None ''bin'' [])\<rparr>"

text \<open>
  A second deployment beside the first. In the one namespace its selector lists web-1
  first, as the first deployment's does; in the other it lists web-2 first.
\<close>

definition overlap_clientset :: kubernetes_Clientset where
  "overlap_clientset =
     demo_clientset\<lparr>Deployments_List :=
       (\<lambda>ns. Inr [\<lparr>Deployment_MatchLabels = [(''app'', ''web'')]\<rparr>,
                  \<lparr>Deployment_MatchLabels = [(''tier'', ''front'')]\<rparr>])\<rparr>"

definition shifted_clientset :: kubernetes_Clientset where
  "shifted_clientset =
     demo_clientset\<lparr>Deployments_List :=
       (\<lambda>ns. Inr [\<lparr>Deployment_MatchLabels = [(''app'', ''web'')]\<rparr>,
                  \<lparr>Deployment_MatchLabels = [(''tier'', ''back'')]\<rparr>])\<rparr>"

definition demo_k8s :: K8SExec where
  "demo_k8s = \<lparr>Config = ''https://cluster'', Clientset = demo_clientset, Namespace = ''default''\<rparr>"

definition overlap_k8s :: K8SExec where
  "overlap_k8s =
     \<lparr>Config = ''https://cluster'', Clientset = overlap_clientset, Namespace = ''default''\<rparr>"

definition shifted_k8s :: K8SExec where
  "shifted_k8s =
     \<lparr>Config = ''https://cluster'', Clientset = shifted_clientset, Namespace = ''default''\<rparr>"

definition demo_world :: World where
  "demo_world =
     \<lparr>BuildConfigFromFlags = (\<lambda>path.
         if path = ''/home/u/.kube/config'' then Inr ''https://cluster''
         else Inl (PlainError ''no such file'')),
      NewForConfig = (\<lambda>cfg. Inr demo_clientset),
      os_Stdin = CharDevice\<rparr>"

definition demo_flags :: Flags where
  "demo_flags =
     \<lparr>kubeconfig = ''/home/u/.kube/config'', namespace = ''default'', pod = [],
      container = [], format = ''text''\<rparr>"

section \<open>Lines of text\<close>

lemma split_from_nonempty: "split_from s sep cur \<noteq> []"
  by (induction s arbitrary: cur) auto

lemma Join_Cons: "ys \<noteq> [] \<Longrightarrow> Join (x # ys) sep = x @ sep @ Join ys sep"
  by (cases ys) auto

lemma Join_split_from: "Join (split_from s sep cur) [sep] = cur @ s"
  by (induction s arbitrary: cur) (auto simp: Join_Cons split_from_nonempty)

lemma Join_Split: "Join (Split s sep) [sep] = s"
  by (simp add: Split_def Join_split_from)

lemma split_from_no_sep:
  "sep \<notin> set cur \<Longrightarrow> sep \<notin> set (concat (split_from s sep cur))"
proof (induction s arbitrary: cur)
  case Nil
  then show ?case by simp
next
  case (Cons a s)
  show ?case
  proof (cases "a = sep")
    case True
    have "sep \<notin> set (concat (split_from s sep []))" by (rule Cons.IH) simp
    then show ?thesis using True Cons.prems by simp
  next
    case False
    have "sep \<notin> set (concat (split_from s sep (cur @ [a])))"
      using Cons.prems False by (intro Cons.IH) simp
    then show ?thesis using False by simp
  qed
qed

lemma Split_no_sep: "sep \<notin> set (concat (Split s sep))"
  unfolding Split_def by (rule split_from_no_sep) simp

lemma length_split_from:
  "length (split_from s sep cur) = Suc (length (filter (\<lambda>c. c = sep) s))"
  by (induction s arbitrary: cur) auto

lemma length_Split: "length (Split s sep) = Suc (length (filter (\<lambda>c. c = sep) s))"
  by (simp add: Split_def length_split_from)

lemma split_from_append:
  "sep \<notin> set x \<Longrightarrow> split_from (x @ t) sep cur = split_from t sep (cur @ x)"
  by (induction x arbitrary: cur) auto

lemma split_from_Join:
  "xs \<noteq> [] \<Longrightarrow> sep \<notin> set (concat xs) \<Longrightarrow>
   split_from (Join xs [sep]) sep cur = (cur @ hd xs) # tl xs"
proof (induction xs arbitrary: cur)
  case Nil
  then show ?case by simp
next
  case (Cons x xs)
  have x: "sep \<notin> set x" using Cons.prems(2) by simp
  show ?case
  proof (cases xs)
    case Nil
    have "split_from (x @ []) sep cur = split_from [] sep (cur @ x)"
      using x by (rule split_from_append)
    then show ?thesis using Nil by simp
  next
    case (Cons y ys)
    have rest: "split_from (Join xs [sep]) sep [] = ([] @ hd xs) # tl xs"
      using Cons.prems(2) Cons by (intro Cons.IH) auto
    have "split_from (x @ sep # Join xs [sep]) sep cur =
        split_from (sep # Join xs [sep]) sep (cur @ x)"
      using x by (rule split_from_append)
    then show ?thesis using Cons rest by simp
  qed
qed

lemma Split_Join:
  "xs \<noteq> [] \<Longrightarrow> sep \<notin> set (concat xs) \<Longrightarrow> Split (Join xs [sep]) sep = xs"
  by (simp add: Split_def split_from_Join)

text \<open>
  C8: \<open>NewExecutionStatus\<close> stores each of the three texts as its lines: the stored
  sequence joined with newlines is the text, no stored line contains a newline, and there
  is one line more than the text has newlines. So the empty text gives the one line
  \<open>""\<close>, a text ending in a newline gives a last empty line, and a non-empty sequence
  of newline-free lines is stored as it is when its join is the text.
\<close>

theorem NewExecutionStatus_lines:
  "Error (NewExecutionStatus p c r e out err) = Split e NL \<and>
   Stdout (NewExecutionStatus p c r e out err) = Split out NL \<and>
   Stderr (NewExecutionStatus p c r e out err) = Split err NL \<and>
   Split [] NL = [[]] \<and>
   Stdout (NewExecutionStatus p c r e [] err) = [[]] \<and>
   Join (Error (NewExecutionStatus p c r e out err)) [NL] = e \<and>
   Join (Stdout (NewExecutionStatus p c r e out err)) [NL] = out \<and>
   Join (Stderr (NewExecutionStatus p c r e out err)) [NL] = err \<and>
   NL \<notin> set (concat (Error (NewExecutionStatus p c r e out err))) \<and>
   NL \<notin> set (concat (Stdout (NewExecutionStatus p c r e out err))) \<and>
   NL \<notin> set (concat (Stderr (NewExecutionStatus p c r e out err))) \<and>
   length (Error (NewExecutionStatus p c r e out err)) = Suc (length (filter (\<lambda>b. b = NL) e)) \<and>
   length (Stdout (NewExecutionStatus p c r e out err)) =
     Suc (length (filter (\<lambda>b. b = NL) out)) \<and>
   length (Stderr (NewExecutionStatus p c r e out err)) =
     Suc (length (filter (\<lambda>b. b = NL) err)) \<and>
   Stdout (NewExecutionStatus p c r e (''bin'' @ [NL] @ ''etc'' @ [NL]) err) =
     [''bin'', ''etc'', []] \<and>
   (lines \<noteq> [] \<and> NL \<notin> set (concat lines) \<longrightarrow>
      Stdout (NewExecutionStatus p c r e (Join lines [NL]) err) = lines)"
proof -
  have fields: "Error (NewExecutionStatus p c r e out err) = Split e NL"
    "Stdout (NewExecutionStatus p c r e out err) = Split out NL"
    "Stderr (NewExecutionStatus p c r e out err) = Split err NL"
    by (simp_all add: NewExecutionStatus_def)
  have empty: "Split [] NL = [[]]" "Stdout (NewExecutionStatus p c r e [] err) = [[]]"
    by (simp_all add: NewExecutionStatus_def Split_def)
  have ex: "Stdout (NewExecutionStatus p c r e (''bin'' @ [NL] @ ''etc'' @ [NL]) err) =
      [''bin'', ''etc'', []]"
    by (simp add: NewExecutionStatus_def Split_def)
  have inv: "lines \<noteq> [] \<and> NL \<notin> set (concat lines) \<longrightarrow>
      Stdout (NewExecutionStatus p c r e (Join lines [NL]) err) = lines"
    by (simp add: NewExecutionStatus_def Split_Join)
  show ?thesis
    unfolding fields
    using empty ex inv fields
    by (simp only: Join_Split Split_no_sep length_Split simp_thms)
qed

theorem NewExecutionStatus_lines_witness:
  "[''total 0'', ''drwx'', []] \<noteq> [] \<and>
   NL \<notin> set (concat [''total 0'', ''drwx'', []]) \<and>
   Join [''total 0'', ''drwx'', []] [NL] = ''total 0'' @ [NL] @ ''drwx'' @ [NL] \<and>
   Stdout (NewExecutionStatus ''web-1'' ''app'' 0 [] (''total 0'' @ [NL] @ ''drwx'' @ [NL]) []) =
     [''total 0'', ''drwx'', []]"
  using NewExecutionStatus_lines [of "''web-1''" "''app''" 0 "[]" "[]" "[]"
      "[''total 0'', ''drwx'', []]"]
  by simp

section \<open>Exit codes\<close>

lemma ExitCodes_None_iff:
  "ExitCodes c = None \<longleftrightarrow> c \<notin> {- 1, 0, 1, 2, 126, 127, 128, 255} \<union> {129..143}"
  unfolding ExitCodes_def ExitCodes_literal_def by simp presburger

lemma main_ExitCodes_None_iff:
  "main_ExitCodes c = None \<longleftrightarrow> c \<notin> {- 1, 0, 1, 2, 126, 127, 128, 255} \<union> {129..143}"
  unfolding main_ExitCodes_def main_ExitCodes_literal_def by simp presburger

lemma main_ExitCodes_agree: "c \<noteq> 130 \<Longrightarrow> main_ExitCodes c = ExitCodes c"
  unfolding main_ExitCodes_def main_ExitCodes_literal_def ExitCodes_def ExitCodes_literal_def
  by simp

text \<open>
  C3, as the code has it: \<open>GetExitCodeDescription\<close> of the package gives the texts of
  the table below, among them the signal form at 137 and at 143, and the empty text for
  every code outside the table, 9999 included. At 130 it gives
  \<open>"Script terminated by Control-C (SIGINT)"\<close>; the signal form for signal 2 is
  what \<open>getExitCodeDescription\<close> of main.go gives there, and the two functions agree at
  every other code.
\<close>

theorem GetExitCodeDescription_table:
  "map GetExitCodeDescription
     [- 1, 0, 1, 2, 126, 127, 128, 129, 130, 131, 132, 133, 134, 135, 136, 137, 138, 139,
      140, 141, 142, 143, 255] =
     [''Internal app error'', ''Success'', ''General error, unspecified error'',
      ''Misuse of shell builtins'', ''Command cannot execute'', ''Command not found'',
      ''Invalid argument to exit'', ''Fatal error signal 1 (SIGHUP)'',
      ''Script terminated by Control-C (SIGINT)'', ''Fatal error signal 3 (SIGQUIT)'',
      ''Fatal error signal 4 (SIGILL)'', ''Fatal error signal 5 (SIGTRAP)'',
      ''Fatal error signal 6 (SIGABRT/SIGIOT)'', ''Fatal error signal 7 (SIGBUS)'',
      ''Fatal error signal 8 (SIGFPE)'', ''Fatal error signal 9 (SIGKILL)'',
      ''Fatal error signal 10 (SIGUSR1)'', ''Fatal error signal 11 (SIGSEGV)'',
      ''Fatal error signal 12 (SIGUSR2)'', ''Fatal error signal 13 (SIGPIPE)'',
      ''Fatal error signal 14 (SIGALRM)'', ''Fatal error signal 15 (SIGTERM)'',
      ''Exit status out of range''] \<and>
   (c \<notin> {- 1, 0, 1, 2, 126, 127, 128, 255} \<union> {129..143} \<longrightarrow> GetExitCodeDescription c = []) \<and>
   getExitCodeDescription 130 = ''Fatal error signal 2 (SIGINT)'' \<and>
   (d \<noteq> 130 \<longrightarrow> getExitCodeDescription d = GetExitCodeDescription d)"
proof -
  have tab: "map GetExitCodeDescription
     [- 1, 0, 1, 2, 126, 127, 128, 129, 130, 131, 132, 133, 134, 135, 136, 137, 138, 139,
      140, 141, 142, 143, 255] =
     [''Internal app error'', ''Success'', ''General error, unspecified error'',
      ''Misuse of shell builtins'', ''Command cannot execute'', ''Command not found'',
      ''Invalid argument to exit'', ''Fatal error signal 1 (SIGHUP)'',
      ''Script terminated by Control-C (SIGINT)'', ''Fatal error signal 3 (SIGQUIT)'',
      ''Fatal error signal 4 (SIGILL)'', ''Fatal error signal 5 (SIGTRAP)'',
      ''Fatal error signal 6 (SIGABRT/SIGIOT)'', ''Fatal error signal 7 (SIGBUS)'',
      ''Fatal error signal 8 (SIGFPE)'', ''Fatal error signal 9 (SIGKILL)'',
      ''Fatal error signal 10 (SIGUSR1)'', ''Fatal error signal 11 (SIGSEGV)'',
      ''Fatal error signal 12 (SIGUSR2)'', ''Fatal error signal 13 (SIGPIPE)'',
      ''Fatal error signal 14 (SIGALRM)'', ''Fatal error signal 15 (SIGTERM)'',
      ''Exit status out of range'']"
    by (simp add: GetExitCodeDescription_def ExitCodes_def ExitCodes_literal_def)
  have out: "c \<notin> {- 1, 0, 1, 2, 126, 127, 128, 255} \<union> {129..143} \<longrightarrow> GetExitCodeDescription c = []"
  proof
    assume "c \<notin> {- 1, 0, 1, 2, 126, 127, 128, 255} \<union> {129..143}"
    then have "ExitCodes c = None" using ExitCodes_None_iff [of c] by blast
    then show "GetExitCodeDescription c = []" by (simp add: GetExitCodeDescription_def)
  qed
  have m130: "getExitCodeDescription 130 = ''Fatal error signal 2 (SIGINT)''"
    by (simp add: getExitCodeDescription_def main_ExitCodes_def main_ExitCodes_literal_def)
  have agree: "d \<noteq> 130 \<longrightarrow> getExitCodeDescription d = GetExitCodeDescription d"
    by (simp add: getExitCodeDescription_def GetExitCodeDescription_def main_ExitCodes_agree)
  from tab out m130 agree show ?thesis by blast
qed

theorem GetExitCodeDescription_table_witness:
  "(9999::int) \<notin> {- 1, 0, 1, 2, 126, 127, 128, 255} \<union> {129..143} \<and>
   GetExitCodeDescription 9999 = [] \<and>
   (137::int) \<noteq> 130 \<and>
   getExitCodeDescription 137 = GetExitCodeDescription 137 \<and>
   GetExitCodeDescription 137 = ''Fatal error signal 9 (SIGKILL)''"
  using GetExitCodeDescription_table [of 9999 137] by simp

text \<open>
  C3 as stated asks for the signal form at 130; the package's table holds another text
  there.
\<close>

theorem GetExitCodeDescription_130_counterexample:
  "GetExitCodeDescription 130 = ''Script terminated by Control-C (SIGINT)'' \<and>
   GetExitCodeDescription 130 \<noteq> ''Fatal error signal 2 (SIGINT)''"
  by (simp add: GetExitCodeDescription_def ExitCodes_def ExitCodes_literal_def)

text \<open>
  C4, as the code has it: for an error that is no code-exit error (nil too) both
  classifiers return \<open>(-1, "")\<close>. For a code-exit error whose code the table lacks,
  \<open>getExitCode\<close> of main.go returns \<open>(-1, "")\<close>, and \<open>GetExitCode\<close> of the package
  returns the code itself with the text \<open>"Exit code <code> description not found!"\<close>.
\<close>

theorem GetExitCode_unrecognized:
  "(errors_As e1 = None \<longrightarrow> GetExitCode e1 = (- 1, []) \<and> getExitCode e1 = (- 1, [])) \<and>
   (errors_As e2 = Some (m, c) \<and> c \<notin> {- 1, 0, 1, 2, 126, 127, 128, 255} \<union> {129..143} \<longrightarrow>
      GetExitCode e2 = (c, ''Exit code '' @ Sprintf_d c @ '' description not found!'') \<and>
      getExitCode e2 = (- 1, []))"
  using ExitCodes_None_iff [of c] main_ExitCodes_None_iff [of c]
  by (auto simp: GetExitCode_def getExitCode_def)

theorem GetExitCode_unrecognized_witness:
  "errors_As (Some (PlainError ''connection refused'')) = None \<and>
   GetExitCode (Some (PlainError ''connection refused'')) = (- 1, []) \<and>
   getExitCode (Some (PlainError ''connection refused'')) = (- 1, []) \<and>
   errors_As (Some (WrapError ''stream'' (CodeExitError ''exit status 3'' 3))) = Some (''exit status 3'', 3) \<and>
   (3::int) \<notin> {- 1, 0, 1, 2, 126, 127, 128, 255} \<union> {129..143} \<and>
   GetExitCode (Some (WrapError ''stream'' (CodeExitError ''exit status 3'' 3))) =
     (3, ''Exit code 3 description not found!'') \<and>
   getExitCode (Some (WrapError ''stream'' (CodeExitError ''exit status 3'' 3))) = (- 1, [])"
  using GetExitCode_unrecognized [of "Some (PlainError ''connection refused'')"
      "Some (WrapError ''stream'' (CodeExitError ''exit status 3'' 3))" "''exit status 3''" 3]
  by (simp add: errors_As_def Sprintf_d_def)

text \<open>
  C4 as stated asks \<open>(-1, "")\<close> of the package's classifier for a code-exit error with
  code 3, which the table lacks.
\<close>

theorem GetExitCode_absent_code_counterexample:
  "errors_As (Some (CodeExitError ''exit status 3'' 3)) = Some (''exit status 3'', 3) \<and>
   ExitCodes 3 = None \<and>
   GetExitCode (Some (CodeExitError ''exit status 3'' 3)) =
     (3, ''Exit code 3 description not found!'') \<and>
   GetExitCode (Some (CodeExitError ''exit status 3'' 3)) \<noteq> (- 1, [])"
  by (simp add: GetExitCode_def errors_As_def ExitCodes_def ExitCodes_literal_def Sprintf_d_def)

section \<open>The stdin summary\<close>

text \<open>
  C5: \<open>NewEnumerationStatus\<close> of package cmd stores a text of at most 40 bytes
  unchanged, and of a longer text the first 40 bytes followed by \<open>"... too long"\<close>.
\<close>

theorem NewEnumerationStatus_Stdin:
  "(length s \<le> 40 \<longrightarrow> Stdin (NewEnumerationStatus s a n) = s) \<and>
   (length t > 40 \<longrightarrow> Stdin (NewEnumerationStatus t a n) = take 40 t @ ''... too long'')"
  by (simp add: NewEnumerationStatus_def)

theorem NewEnumerationStatus_Stdin_witness:
  "length ''ls -la /'' \<le> 40 \<and>
   Stdin (NewEnumerationStatus ''ls -la /'' [''sh''] ''default'') = ''ls -la /'' \<and>
   length ''find / -type f -perm /4000 -exec ls -l {} +'' > 40 \<and>
   Stdin (NewEnumerationStatus ''find / -type f -perm /4000 -exec ls -l {} +'' [''sh''] ''default'')
     = ''find / -type f -perm /4000 -exec ls -l {... too long''"
  using NewEnumerationStatus_Stdin [of "''ls -la /''" "[''sh'']" "''default''"
      "''find / -type f -perm /4000 -exec ls -l {} +''"]
  by simp

text \<open>The copy in main.go differs: under its guard a text of 1 to 39 bytes panics.\<close>

lemma main_NewEnumerationStatus_short_panics:
  "main_NewEnumerationStatus ''ls'' [] ''default'' = Inl slice_bounds_out_of_range"
  by (simp add: main_NewEnumerationStatus_def)

section \<open>The unique pods of a namespace\<close>

lemmas demo_defs = web1_def web2_def db0_def job1_def demo_clientset_def overlap_clientset_def
  shifted_clientset_def demo_k8s_def overlap_k8s_def shifted_k8s_def demo_world_def demo_flags_def

lemma dom_count_pods: "dom (count_pods ps m) = dom m \<union> set (map Name ps)"
  by (induction ps arbitrary: m) auto

lemma selector_loop_fst:
  "fst (selector_loop k8s ls u m) = u @ first_matches k8s ls"
  by (induction ls arbitrary: u m) (auto split: sum.splits list.splits)

lemma selector_loop_dom:
  "dom (snd (selector_loop k8s ls u m)) = dom m \<union> matched_names k8s ls"
  by (induction ls arbitrary: u m) (auto simp: dom_count_pods split: sum.splits)

lemma first_matches_names:
  "set (map Name (first_matches k8s ls)) \<subseteq> matched_names k8s ls"
  by (induction ls) (auto split: sum.splits list.splits)

lemma standalone_loop_filter:
  "standalone_loop ps d s u = u @ filter (\<lambda>p. Name p \<notin> dom d \<union> dom s) ps"
  by (induction ps arbitrary: u) auto

lemma GetUniquePods_eq:
  assumes "GetDeployments k8s = Inr deployments"
    and "GetStatefulSets k8s = Inr statefulSets"
    and "GetPods k8s [] = Inr podsItems"
  shows "GetUniquePods k8s =
     Inr (int (length podsItems),
          controller_firsts k8s deployments statefulSets @
          filter (\<lambda>p. Name p \<notin> claimed_names k8s deployments statefulSets) podsItems)"
proof -
  let ?D = "map Deployment_MatchLabels deployments"
  let ?S = "map StatefulSet_MatchLabels statefulSets"
  obtain m1 where l1: "selector_loop k8s ?D [] Map.empty = (first_matches k8s ?D, m1)"
    using selector_loop_fst [of k8s ?D "[]" Map.empty]
    by (cases "selector_loop k8s ?D [] Map.empty") simp
  obtain m2 where l2: "selector_loop k8s ?S (first_matches k8s ?D) Map.empty =
      (first_matches k8s ?D @ first_matches k8s ?S, m2)"
    using selector_loop_fst [of k8s ?S "first_matches k8s ?D" Map.empty]
    by (cases "selector_loop k8s ?S (first_matches k8s ?D) Map.empty") simp
  have d1: "dom m1 = matched_names k8s ?D"
    using selector_loop_dom [of k8s ?D "[]" Map.empty] l1 by simp
  have d2: "dom m2 = matched_names k8s ?S"
    using selector_loop_dom [of k8s ?S "first_matches k8s ?D" Map.empty] l2 by simp
  have pl: "Pods_List (Clientset k8s) (Namespace k8s) [] = Inr podsItems"
    using assms(3) by (simp add: GetPods_def)
  show ?thesis
    unfolding GetUniquePods_def
    by (simp add: assms(1,2) l1 l2 pl standalone_loop_filter d1 d2
        controller_firsts_def claimed_names_def)
qed

lemma firsts_in_claimed:
  "set (map Name (controller_firsts k8s ds ss)) \<subseteq> claimed_names k8s ds ss"
  using first_matches_names [of k8s "map Deployment_MatchLabels ds"]
    first_matches_names [of k8s "map StatefulSet_MatchLabels ss"]
  by (auto simp: controller_firsts_def claimed_names_def)

lemma distinct_firsts_standalone:
  assumes "distinct (map Name firsts)" and "distinct (map Name podsItems)"
    and "set (map Name firsts) \<subseteq> claimed"
  shows "distinct (map Name (firsts @ filter (\<lambda>p. Name p \<notin> claimed) podsItems))"
proof -
  have "distinct (map Name (filter (\<lambda>p. Name p \<notin> claimed) podsItems))"
    using assms(2) by (rule distinct_map_filter)
  moreover have "set (map Name firsts) \<inter>
      set (map Name (filter (\<lambda>p. Name p \<notin> claimed) podsItems)) = {}"
    using assms(3) by auto
  ultimately show ?thesis using assms(1) by simp
qed

text \<open>
  C1, as the code has it: when the three listings succeed, \<open>GetUniquePods\<close> returns the
  number of pods of the namespace and, in this order, the first listed pod of every
  deployment whose selector lists a pod, the first listed pod of every stateful set whose
  selector lists a pod, and the pods of the namespace whose name no such listing
  contains. A first listed pod is never among the latter. No name occurs twice in the
  result provided the first listed pods of the controllers have different names and the
  listing of the namespace repeats no name; a pod that two overlapping selectors both
  list first is appended once for each of them.
\<close>

theorem GetUniquePods_at_most_once:
  assumes "GetDeployments k8s = Inr deployments"
    and "GetStatefulSets k8s = Inr statefulSets"
    and "GetPods k8s [] = Inr podsItems"
  shows "GetUniquePods k8s =
           Inr (int (length podsItems),
                controller_firsts k8s deployments statefulSets @
                filter (\<lambda>p. Name p \<notin> claimed_names k8s deployments statefulSets) podsItems) \<and>
         set (map Name (controller_firsts k8s deployments statefulSets))
           \<subseteq> claimed_names k8s deployments statefulSets \<and>
         (distinct (map Name (controller_firsts k8s deployments statefulSets)) \<and>
          distinct (map Name podsItems) \<longrightarrow>
            distinct (map Name
              (controller_firsts k8s deployments statefulSets @
               filter (\<lambda>p. Name p \<notin> claimed_names k8s deployments statefulSets) podsItems)))"
  using GetUniquePods_eq [OF assms] firsts_in_claimed [of k8s deployments statefulSets]
    distinct_firsts_standalone [of "controller_firsts k8s deployments statefulSets" podsItems
      "claimed_names k8s deployments statefulSets"]
  by blast

theorem GetUniquePods_at_most_once_witness:
  "GetDeployments shifted_k8s =
     Inr [\<lparr>Deployment_MatchLabels = [(''app'', ''web'')]\<rparr>,
          \<lparr>Deployment_MatchLabels = [(''tier'', ''back'')]\<rparr>] \<and>
   GetStatefulSets shifted_k8s = Inr [\<lparr>StatefulSet_MatchLabels = [(''app'', ''db'')]\<rparr>] \<and>
   GetPods shifted_k8s [] = Inr [web1, web2, db0, job1] \<and>
   GetPods shifted_k8s ''app=web'' = Inr [web1, web2] \<and>
   GetPods shifted_k8s ''tier=back'' = Inr [web2, web1] \<and>
   distinct (map Name [web1, web2, db0, job1]) \<and>
   GetUniquePods shifted_k8s = Inr (4, [web1, web2, db0, job1])"
  using GetUniquePods_at_most_once [of shifted_k8s
      "[\<lparr>Deployment_MatchLabels = [(''app'', ''web'')]\<rparr>,
        \<lparr>Deployment_MatchLabels = [(''tier'', ''back'')]\<rparr>]"
      "[\<lparr>StatefulSet_MatchLabels = [(''app'', ''db'')]\<rparr>]"
      "[web1, web2, db0, job1]"]
  by (simp add: GetDeployments_def GetStatefulSets_def GetPods_def controller_firsts_def
      claimed_names_def mapToLabelSelector_def demo_defs)

text \<open>
  C1 as stated fails where two deployments list the same pod first: web-1 is returned
  twice.
\<close>

theorem GetUniquePods_overlap_counterexample:
  "GetUniquePods overlap_k8s = Inr (4, [web1, web1, db0, job1]) \<and>
   \<not> distinct (map Name [web1, web1, db0, job1])"
  by (simp add: GetUniquePods_def GetDeployments_def GetStatefulSets_def GetPods_def
      mapToLabelSelector_def demo_defs)

section \<open>Remote execution\<close>

text \<open>
  C7, as the code has it: when the executor cannot be built, \<open>Exec\<close> reports the code
  -1 with the text of the error and nothing in the two output sinks. When the stream ends
  with an error that is no code-exit error it reports -1 with the text of the error, and
  the sinks hold whatever the stream wrote before it failed. When the stream ends with a
  code-exit error, the remote code is the reported code, with the text of that error.
\<close>

theorem Exec_status_codes:
  "(Pods_Exec (Clientset k8s) (Namespace k8s) p1 c1 args stdin = ExecutorError e1 \<longrightarrow>
      exec k8s p1 c1 args stdin = (- 1, Some e1, [], []) \<and>
      Exec k8s p1 c1 args stdin =
        \<lparr>Pod = p1, Container = c1, RetCode = - 1, Error = Split (err_Error e1) NL,
         Stdout = [[]], Stderr = [[]]\<rparr>) \<and>
   (Pods_Exec (Clientset k8s) (Namespace k8s) p2 c2 args stdin = Streamed (Some e2) out2 eo2 \<and>
    errors_As (Some e2) = None \<longrightarrow>
      exec k8s p2 c2 args stdin = (- 1, Some e2, out2, eo2) \<and>
      Exec k8s p2 c2 args stdin =
        \<lparr>Pod = p2, Container = c2, RetCode = - 1, Error = Split (err_Error e2) NL,
         Stdout = Split out2 NL, Stderr = Split eo2 NL\<rparr>) \<and>
   (Pods_Exec (Clientset k8s) (Namespace k8s) p3 c3 args stdin = Streamed (Some e3) out3 eo3 \<and>
    errors_As (Some e3) = Some (m, code) \<longrightarrow>
      exec k8s p3 c3 args stdin = (code, Some (CodeExitError m code), out3, eo3) \<and>
      Exec k8s p3 c3 args stdin =
        \<lparr>Pod = p3, Container = c3, RetCode = code, Error = Split m NL,
         Stdout = Split out3 NL, Stderr = Split eo3 NL\<rparr>)"
  by (simp add: Exec_def exec_def NewExecutionStatus_def) (simp add: Split_def)

theorem Exec_status_codes_witness:
  "Pods_Exec (Clientset demo_k8s) (Namespace demo_k8s) ''web-2'' ''app'' [''ls''] (Some []) =
     ExecutorError (PlainError ''unable to upgrade connection'') \<and>
   Exec demo_k8s ''web-2'' ''app'' [''ls''] (Some []) =
     \<lparr>Pod = ''web-2'', Container = ''app'', RetCode = - 1,
      Error = [''unable to upgrade connection''], Stdout = [[]], Stderr = [[]]\<rparr> \<and>
   Pods_Exec (Clientset demo_k8s) (Namespace demo_k8s) ''job-1'' ''main'' [''ls''] (Some []) =
     Streamed (Some (PlainError ''connection reset'')) ''partial'' [] \<and>
   errors_As (Some (PlainError ''connection reset'')) = None \<and>
   Exec demo_k8s ''job-1'' ''main'' [''ls''] (Some []) =
     \<lparr>Pod = ''job-1'', Container = ''main'', RetCode = - 1,
      Error = [''connection reset''], Stdout = [''partial''], Stderr = [[]]\<rparr> \<and>
   Pods_Exec (Clientset demo_k8s) (Namespace demo_k8s) ''web-1'' ''sidecar'' [''ls''] (Some []) =
     Streamed (Some (WrapError ''stream ended''
        (CodeExitError ''command terminated with exit code 127'' 127))) [] ''sh: not found'' \<and>
   errors_As (Some (WrapError ''stream ended''
        (CodeExitError ''command terminated with exit code 127'' 127))) =
     Some (''command terminated with exit code 127'', 127) \<and>
   Exec demo_k8s ''web-1'' ''sidecar'' [''ls''] (Some []) =
     \<lparr>Pod = ''web-1'', Container = ''sidecar'', RetCode = 127,
      Error = [''command terminated with exit code 127''], Stdout = [[]],
      Stderr = [''sh: not found'']\<rparr>"
  using Exec_status_codes [of demo_k8s "''web-2''" "''app''" "[''ls'']" "Some []"
      "PlainError ''unable to upgrade connection''"
      "''job-1''" "''main''" "PlainError ''connection reset''" "''partial''" "[]"
      "''web-1''" "''sidecar''"
      "WrapError ''stream ended'' (CodeExitError ''command terminated with exit code 127'' 127)"
      "[]" "''sh: not found''" "''command terminated with exit code 127''" 127]
  by (simp add: errors_As_def Split_def demo_k8s_def demo_clientset_def)

text \<open>
  C7 as stated asks for empty sinks at every transport failure; a stream that fails after
  writing to the standard output leaves what it wrote.
\<close>

theorem Exec_stream_failure_counterexample:
  "Pods_Exec (Clientset demo_k8s) (Namespace demo_k8s) ''job-1'' ''main'' [''ls''] (Some []) =
     Streamed (Some (PlainError ''connection reset'')) ''partial'' [] \<and>
   errors_As (Some (PlainError ''connection reset'')) = None \<and>
   exec demo_k8s ''job-1'' ''main'' [''ls''] (Some []) =
     (- 1, Some (PlainError ''connection reset''), ''partial'', []) \<and>
   RetCode (Exec demo_k8s ''job-1'' ''main'' [''ls''] (Some [])) = - 1 \<and>
   Stdout (Exec demo_k8s ''job-1'' ''main'' [''ls''] (Some [])) = [''partial''] \<and>
   Stdout (Exec demo_k8s ''job-1'' ''main'' [''ls''] (Some [])) \<noteq> [[]]"
  by (simp add: Exec_def exec_def NewExecutionStatus_def Split_def errors_As_def
      demo_k8s_def demo_clientset_def)

text \<open>
  C10: \<open>CheckUtilInContainer\<close> is true exactly when the code that \<open>exec\<close> returns for
  the one-element command is neither 127 nor 126. A failure to build the executor and a
  stream error that is no code-exit error give -1, hence true; a remote exit code gives
  true unless it is 127 or 126.
\<close>

theorem CheckUtilInContainer_codes:
  "CheckUtilInContainer k8s p c util =
     (fst (exec k8s p c [util] None) \<noteq> 127 \<and> fst (exec k8s p c [util] None) \<noteq> 126) \<and>
   (Pods_Exec (Clientset k8s) (Namespace k8s) p1 c1 [util] None = ExecutorError e1 \<longrightarrow>
      fst (exec k8s p1 c1 [util] None) = - 1 \<and> CheckUtilInContainer k8s p1 c1 util) \<and>
   (Pods_Exec (Clientset k8s) (Namespace k8s) p2 c2 [util] None = Streamed (Some e2) out2 eo2 \<and>
    errors_As (Some e2) = None \<longrightarrow>
      fst (exec k8s p2 c2 [util] None) = - 1 \<and> CheckUtilInContainer k8s p2 c2 util) \<and>
   (Pods_Exec (Clientset k8s) (Namespace k8s) p3 c3 [util] None = Streamed (Some e3) out3 eo3 \<and>
    errors_As (Some e3) = Some (m, code) \<longrightarrow>
      fst (exec k8s p3 c3 [util] None) = code \<and>
      CheckUtilInContainer k8s p3 c3 util = (code \<noteq> 127 \<and> code \<noteq> 126))"
  by (simp add: CheckUtilInContainer_def exec_def split: prod.splits)

theorem CheckUtilInContainer_codes_witness:
  "Pods_Exec (Clientset demo_k8s) (Namespace demo_k8s) ''web-2'' ''app'' [''bash''] None =
     ExecutorError (PlainError ''unable to upgrade connection'') \<and>
   fst (exec demo_k8s ''web-2'' ''app'' [''bash''] None) = - 1 \<and>
   CheckUtilInContainer demo_k8s ''web-2'' ''app'' ''bash'' \<and>
   Pods_Exec (Clientset demo_k8s) (Namespace demo_k8s) ''job-1'' ''main'' [''bash''] None =
     Streamed (Some (PlainError ''connection reset'')) ''partial'' [] \<and>
   errors_As (Some (PlainError ''connection reset'')) = None \<and>
   CheckUtilInContainer demo_k8s ''job-1'' ''main'' ''bash'' \<and>
   Pods_Exec (Clientset demo_k8s) (Namespace demo_k8s) ''web-1'' ''sidecar'' [''bash''] None =
     Streamed (Some (WrapError ''stream ended''
        (CodeExitError ''command terminated with exit code 127'' 127))) [] ''sh: not found'' \<and>
   errors_As (Some (WrapError ''stream ended''
        (CodeExitError ''command terminated with exit code 127'' 127))) =
     Some (''command terminated with exit code 127'', 127) \<and>
   \<not> CheckUtilInContainer demo_k8s ''web-1'' ''sidecar'' ''bash''"
  using CheckUtilInContainer_codes [of demo_k8s "''web-2''" "''app''" "''bash''"
      "''web-2''" "''app''" "PlainError ''unable to upgrade connection''"
      "''job-1''" "''main''" "PlainError ''connection reset''" "''partial''" "[]"
      "''web-1''" "''sidecar''"
      "WrapError ''stream ended'' (CodeExitError ''command terminated with exit code 127'' 127)"
      "[]" "''sh: not found''" "''command terminated with exit code 127''" 127]
  by (simp add: errors_As_def demo_k8s_def demo_clientset_def)

section \<open>The run\<close>

lemmas run_defs = run_def run_switch_def k8sInit_def NewK8SExec_def capture_stdin_def
  NewEnumerationStatus_def GetPods_def Exec_def exec_def NewExecutionStatus_def Split_def
  errors_As_def

lemma k8sInit_NewK8SExec:
  "k8sInit w path = Inr (cfg, cs) \<Longrightarrow>
   NewK8SExec w path ns = Inr \<lparr>Config = cfg, Clientset = cs, Namespace = ns\<rparr>"
  by (auto simp: k8sInit_def NewK8SExec_def split: sum.splits)

lemma container_loop_map:
  "container_loop k8s podName cs args stdinBuf st =
     ((fst st)\<lparr>Statuses := Statuses (fst st) @
         map (\<lambda>c. Exec k8s podName c args (Some stdinBuf)) cs\<rparr>,
      snd st @ map (\<lambda>c. ExecRequest (Namespace k8s) podName c args (Some stdinBuf)) cs)"
  by (induction cs arbitrary: st) auto

lemma pod_loop_map:
  "pod_loop k8s ps args stdinBuf st =
     ((fst st)\<lparr>Statuses := Statuses (fst st) @
         map (\<lambda>(p, c). Exec k8s p c args (Some stdinBuf)) (running_targets ps)\<rparr>,
      snd st @
         map (\<lambda>(p, c). ExecRequest (Namespace k8s) p c args (Some stdinBuf)) (running_targets ps))"
proof (induction ps arbitrary: st)
  case Nil
  then show ?case by (simp add: running_targets_def)
next
  case (Cons p ps)
  have rt: "running_targets (p # ps) =
      (if Phase p = ''Running'' then map (Pair (Name p)) (Containers p) else []) @
      running_targets ps"
    by (simp add: running_targets_def)
  show ?case
    by (simp add: Cons.IH rt container_loop_map comp_def)
qed

text \<open>
  C2, as the code has it: with neither a pod nor a container given, \<open>run\<close> lists all the
  pods of the namespace, without the resolver of the unique pods, and executes the
  command in every container of every listed pod in phase Running, in the order of the
  listing and of the declaration.
\<close>

theorem run_all_pods:
  assumes "k8sInit w (kubeconfig fl) = Inr (cfg, cs)"
    and "capture_stdin (os_Stdin w) = Inr stdinBuf"
    and "\<not> (stdinBuf = [] \<and> args = [])"
    and "pod fl = []" and "container fl = []"
    and "Pods_List cs (namespace fl) [] = Inr pods"
  shows "run w fl args =
     (let args2 = (if args = [] then [''sh''] else args);
          k8s = \<lparr>Config = cfg, Clientset = cs, Namespace = namespace fl\<rparr>
      in (return_nil
            ((NewEnumerationStatus stdinBuf args2 (namespace fl))
               \<lparr>Statuses := map (\<lambda>(p, c). Exec k8s p c args2 (Some stdinBuf))
                                (running_targets pods)\<rparr>),
          PodsList (namespace fl) [] #
            map (\<lambda>(p, c). ExecRequest (namespace fl) p c args2 (Some stdinBuf))
                (running_targets pods)))"
proof -
  let ?k8s = "\<lparr>Config = cfg, Clientset = cs, Namespace = namespace fl\<rparr>"
  have new: "NewK8SExec w (kubeconfig fl) (namespace fl) = Inr ?k8s"
    using assms(1) by (rule k8sInit_NewK8SExec)
  have gp: "GetPods ?k8s [] = Inr pods"
    using assms(6) by (simp add: GetPods_def)
  show ?thesis
    using assms(3)
    by (simp add: run_def assms(1,2,4,5) new run_switch_def gp pod_loop_map Let_def
        NewEnumerationStatus_def)
qed

theorem run_all_pods_witness:
  "k8sInit demo_world (kubeconfig demo_flags) = Inr (''https://cluster'', demo_clientset) \<and>
   capture_stdin (os_Stdin demo_world) = Inr [] \<and>
   pod demo_flags = [] \<and> container demo_flags = [] \<and>
   Pods_List demo_clientset (namespace demo_flags) [] = Inr [web1, web2, db0, job1] \<and>
   running_targets [web1, web2, db0, job1] =
     [(''web-1'', ''app''), (''web-1'', ''sidecar''), (''web-2'', ''app''), (''job-1'', ''main'')] \<and>
   run demo_world demo_flags [''ls''] =
     (return_nil
        \<lparr>Stdin = [], Args = [''ls''], EnumNamespace = ''default'',
         Statuses = map (\<lambda>(p, c). Exec demo_k8s p c [''ls''] (Some []))
           [(''web-1'', ''app''), (''web-1'', ''sidecar''), (''web-2'', ''app''),
            (''job-1'', ''main'')]\<rparr>,
      PodsList ''default'' [] #
        map (\<lambda>(p, c). ExecRequest ''default'' p c [''ls''] (Some []))
          [(''web-1'', ''app''), (''web-1'', ''sidecar''), (''web-2'', ''app''),
           (''job-1'', ''main'')])"
  using run_all_pods [of demo_world demo_flags "''https://cluster''" demo_clientset "[]"
      "[''ls'']" "[web1, web2, db0, job1]"]
  by (simp add: k8sInit_def capture_stdin_def running_targets_def NewEnumerationStatus_def
      Let_def demo_defs)

text \<open>
  C2 as stated fails in the namespace above: the resolver returns web-1, db-0 and job-1,
  and \<open>run\<close>, which makes one listing request and no other, also executes in the
  replica web-2.
\<close>

theorem run_all_pods_counterexample:
  "GetUniquePods demo_k8s = Inr (4, [web1, db0, job1]) \<and>
   running_targets [web1, db0, job1] =
     [(''web-1'', ''app''), (''web-1'', ''sidecar''), (''job-1'', ''main'')] \<and>
   map status_target (outcome_statuses (fst (run demo_world demo_flags [''ls'']))) =
     [(''web-1'', ''app''), (''web-1'', ''sidecar''), (''web-2'', ''app''), (''job-1'', ''main'')] \<and>
   snd (run demo_world demo_flags [''ls'']) =
     [PodsList ''default'' [],
      ExecRequest ''default'' ''web-1'' ''app'' [''ls''] (Some []),
      ExecRequest ''default'' ''web-1'' ''sidecar'' [''ls''] (Some []),
      ExecRequest ''default'' ''web-2'' ''app'' [''ls''] (Some []),
      ExecRequest ''default'' ''job-1'' ''main'' [''ls''] (Some [])]"
  by (simp add: GetUniquePods_def GetDeployments_def GetStatefulSets_def
      mapToLabelSelector_def running_targets_def status_target_def run_defs Let_def
      demo_defs)

text \<open>
  C6: with an empty captured input and no argument, \<open>run\<close> ends fatally, by exit or by
  a returned error, without any request to the cluster and without any status; when the
  configuration loads, the returned error is the one about missing commands.
\<close>

theorem run_no_command:
  assumes "capture_stdin (os_Stdin w) = Inr []"
  shows "fatal (fst (run w fl [])) \<and>
         snd (run w fl []) = [] \<and>
         outcome_statuses (fst (run w fl [])) = [] \<and>
         (k8sInit w (kubeconfig fl) = Inr (cfg, cs) \<longrightarrow>
            fst (run w fl []) =
              return_err (PlainError ''No commands provided either by stdin or arguments.''))"
proof (cases "k8sInit w (kubeconfig fl)")
  case (Inl msg)
  then show ?thesis by (simp add: run_def)
next
  case (Inr r)
  obtain cfg2 cs2 where r: "r = (cfg2, cs2)" by (cases r)
  have "NewK8SExec w (kubeconfig fl) (namespace fl) =
      Inr \<lparr>Config = cfg2, Clientset = cs2, Namespace = namespace fl\<rparr>"
    using Inr r by (simp add: k8sInit_NewK8SExec)
  then show ?thesis using Inr r assms by (simp add: run_def)
qed

theorem run_no_command_witness:
  "capture_stdin (os_Stdin demo_world) = Inr [] \<and>
   k8sInit demo_world (kubeconfig demo_flags) = Inr (''https://cluster'', demo_clientset) \<and>
   run demo_world demo_flags [] =
     (return_err (PlainError ''No commands provided either by stdin or arguments.''), [])"
  using run_no_command [of demo_world demo_flags "''https://cluster''" demo_clientset]
  by (simp add: capture_stdin_def k8sInit_def demo_defs prod_eq_iff)

text \<open>
  C9: with a pod given and fetched. If the pod is not in phase Running and no container
  is given, \<open>run\<close> returns nil with no status; if a container is given too, it exits
  after printing a text that names the pod. If the pod is in phase Running and no
  container is given, it executes in every container of the pod, in declared order.
\<close>

theorem run_pod_given:
  assumes "k8sInit w (kubeconfig fl) = Inr (cfg, cs)"
    and "capture_stdin (os_Stdin w) = Inr stdinBuf"
    and "\<not> (stdinBuf = [] \<and> args = [])"
    and "pod fl \<noteq> []"
    and "Pods_Get cs (namespace fl) (pod fl) = Inr thePod"
  shows "(container fl = [] \<and> Phase thePod \<noteq> ''Running'' \<longrightarrow>
            run w fl args =
              (return_nil (NewEnumerationStatus stdinBuf
                 (if args = [] then [''sh''] else args) (namespace fl)),
               [PodsGet (namespace fl) (pod fl)]) \<and>
            outcome_statuses (fst (run w fl args)) = []) \<and>
         (container fl \<noteq> [] \<and> Phase thePod \<noteq> ''Running'' \<longrightarrow>
            run w fl args =
              (os_Exit (''Pod '' @ pod fl @ '' is not in Running phase'' @ [NL]),
               [PodsGet (namespace fl) (pod fl)])) \<and>
         (container fl = [] \<and> Phase thePod = ''Running'' \<longrightarrow>
            run w fl args =
              (return_nil
                 ((NewEnumerationStatus stdinBuf (if args = [] then [''sh''] else args)
                     (namespace fl))
                    \<lparr>Statuses :=
                       map (\<lambda>c. Exec \<lparr>Config = cfg, Clientset = cs, Namespace = namespace fl\<rparr>
                                  (Name thePod) c (if args = [] then [''sh''] else args)
                                  (Some stdinBuf))
                           (Containers thePod)\<rparr>),
               PodsGet (namespace fl) (pod fl) #
                 map (\<lambda>c. ExecRequest (namespace fl) (Name thePod) c
                        (if args = [] then [''sh''] else args) (Some stdinBuf))
                     (Containers thePod)))"
proof -
  let ?k8s = "\<lparr>Config = cfg, Clientset = cs, Namespace = namespace fl\<rparr>"
  have new: "NewK8SExec w (kubeconfig fl) (namespace fl) = Inr ?k8s"
    using assms(1) by (rule k8sInit_NewK8SExec)
  show ?thesis
    using assms(3,4)
    by (simp add: run_def assms(1,2,5) new run_switch_def container_loop_map Let_def
        NewEnumerationStatus_def)
qed

theorem run_pod_given_witness:
  "k8sInit demo_world ''/home/u/.kube/config'' = Inr (''https://cluster'', demo_clientset) \<and>
   capture_stdin (os_Stdin demo_world) = Inr [] \<and>
   Pods_Get demo_clientset ''default'' ''db-0'' = Inr db0 \<and>
   Phase db0 \<noteq> ''Running'' \<and>
   run demo_world (demo_flags\<lparr>pod := ''db-0''\<rparr>) [''ls''] =
     (return_nil \<lparr>Stdin = [], Args = [''ls''], EnumNamespace = ''default'', Statuses = []\<rparr>,
      [PodsGet ''default'' ''db-0'']) \<and>
   run demo_world (demo_flags\<lparr>pod := ''db-0'', container := ''postgres''\<rparr>) [''ls''] =
     (os_Exit (''Pod db-0 is not in Running phase'' @ [NL]), [PodsGet ''default'' ''db-0'']) \<and>
   Pods_Get demo_clientset ''default'' ''web-1'' = Inr web1 \<and>
   Phase web1 = ''Running'' \<and>
   run demo_world (demo_flags\<lparr>pod := ''web-1''\<rparr>) [''ls''] =
     (return_nil
        \<lparr>Stdin = [], Args = [''ls''], EnumNamespace = ''default'',
         Statuses = [Exec demo_k8s ''web-1'' ''app'' [''ls''] (Some []),
                     Exec demo_k8s ''web-1'' ''sidecar'' [''ls''] (Some [])]\<rparr>,
      [PodsGet ''default'' ''web-1'',
       ExecRequest ''default'' ''web-1'' ''app'' [''ls''] (Some []),
       ExecRequest ''default'' ''web-1'' ''sidecar'' [''ls''] (Some [])])"
  using
    run_pod_given [of demo_world "demo_flags\<lparr>pod := ''db-0''\<rparr>" "''https://cluster''"
      demo_clientset "[]" "[''ls'']" db0]
    run_pod_given [of demo_world "demo_flags\<lparr>pod := ''db-0'', container := ''postgres''\<rparr>"
      "''https://cluster''" demo_clientset "[]" "[''ls'']" db0]
    run_pod_given [of demo_world "demo_flags\<lparr>pod := ''web-1''\<rparr>" "''https://cluster''"
      demo_clientset "[]" "[''ls'']" web1]
  by (simp add: k8sInit_def capture_stdin_def NewEnumerationStatus_def demo_defs)

end
